theory Spec2Isabelle
  imports Main
begin

section \<open>The shop's ticket projection (src/lib/server/shop/getTickets.ts)\<close>

text \<open>
  The module reads tickets through Prisma and turns each loaded record into the object
  sent to the client. The embedding follows the source function by function:
  \<^item> \<open>ticketIncludedFields\<close>: the relations loaded with a ticket (the requester's
    Consumables and reservations, and the two relation counts);
  \<^item> \<open>formatTicket\<close>: the object literal with its two spreads, followed by the four
    \<open>delete\<close> statements;
  \<^item> \<open>getTicket\<close> and \<open>getTickets\<close>: the \<open>findFirst\<close> and \<open>findMany\<close> queries.

  A \<open>Date\<close> is its time value, an integer number of milliseconds since the epoch
  (\<open>valueOf\<close>), so \<open>new Date(n)\<close> is \<open>n\<close>; time values stay far inside the range in
  which JavaScript numbers are exact integers. Every \<open>new Date()\<close> and \<open>dayjs()\<close>
  of the source reads the clock, and each such reading is an argument of the model; so
  is the local time zone of the process, in which \<open>dayjs\<close> counts days.
\<close>

subsection \<open>Rows and loaded records\<close>

type_synonym date = int

text \<open>A column value of a row, for the columns this module passes on without reading.\<close>

datatype scalar = SNull | SBool bool | SNum int | SStr string | SDate date

type_synonym row_cols = "(string \<times> scalar) list"

record Consumable =
  purchasedAt :: "date option"
  expiresAt :: "date option"
  consumable_cols :: row_cols

record ConsumableReservation =
  order :: "int option"
  reservation_cols :: row_cols

text \<open>
  \<open>DBShopIdentification\<close> is the value of \<open>dbIdentification\<close>, imported from
  \<open>./types\<close>. This module only spreads it into the \<open>where\<close> of the Consumable and of
  the reservation query, so it is taken as the condition it puts on the owner columns of
  a row, and left open.
\<close>

type_synonym DBShopIdentification = "row_cols \<Rightarrow> bool"

text \<open>The source's \<open>_count\<close>: Prisma's relation counts of one Shoppable.\<close>

record Count =
  count_consumables :: nat
  count_reservations :: nat

record Shoppable =
  availableFrom :: date
  availableTo :: "date option"
  removedAt :: "date option"
  shoppable_cols :: row_cols

text \<open>\<open>TicketFromPrisma["shoppable"]\<close>: the Shoppable with its included relations.\<close>

record ShoppableWithRelations = Shoppable +
  consumables :: "Consumable list"
  reservations :: "ConsumableReservation list"
  shoppable_count :: Count

record Event =
  event_cols :: row_cols

record EventWithTags = Event +
  tags :: "row_cols list"

record Ticket =
  ticket_id :: string
  stock :: int
  maxAmountPerUser :: int
  ticket_cols :: row_cols

record TicketFromPrisma = Ticket +
  shoppable :: ShoppableWithRelations
  event :: EventWithTags

text \<open>
  The database as this module sees it: each ticket row with the rows it is related to,
  the Consumables and reservations being those of every user.
\<close>

record TicketRow = Ticket +
  row_shoppable :: Shoppable
  row_consumables :: "Consumable list"
  row_reservations :: "ConsumableReservation list"
  row_event :: EventWithTags

subsection \<open>JavaScript objects\<close>

text \<open>
  \<open>formatTicket\<close> builds its result with object spreads and \<open>delete\<close>, so the result is
  an object: a finite map from property names to values.
\<close>

datatype jsval =
    Prim scalar
  | ConsumableArray "Consumable list"
  | ReservationArray "ConsumableReservation list"
  | CountObject Count
  | ShoppableObject ShoppableWithRelations
  | EventObject EventWithTags

type_synonym object = "string \<rightharpoonup> jsval"

definition nullable_date :: "date option \<Rightarrow> jsval" where
  "nullable_date d = (case d of None \<Rightarrow> Prim SNull | Some v \<Rightarrow> Prim (SDate v))"

definition cols_object :: "row_cols \<Rightarrow> object" where
  "cols_object cols = map_option Prim \<circ> map_of cols"

text \<open>
  The own properties of a loaded Shoppable and of a loaded ticket, as a spread sees them.
  The columns the module names are listed; the others come from the \<open>_cols\<close> field.
\<close>

definition shoppable_object :: "ShoppableWithRelations \<Rightarrow> object" where
  "shoppable_object s =
     (cols_object (shoppable_cols s))
       (''availableFrom'' \<mapsto> Prim (SDate (availableFrom s)),
        ''availableTo'' \<mapsto> nullable_date (availableTo s),
        ''removedAt'' \<mapsto> nullable_date (removedAt s),
        ''consumables'' \<mapsto> ConsumableArray (consumables s),
        ''reservations'' \<mapsto> ReservationArray (reservations s),
        ''_count'' \<mapsto> CountObject (shoppable_count s))"

definition ticket_object :: "TicketFromPrisma \<Rightarrow> object" where
  "ticket_object t =
     (cols_object (ticket_cols t))
       (''id'' \<mapsto> Prim (SStr (ticket_id t)),
        ''stock'' \<mapsto> Prim (SNum (stock t)),
        ''maxAmountPerUser'' \<mapsto> Prim (SNum (maxAmountPerUser t)),
        ''shoppable'' \<mapsto> ShoppableObject (shoppable t),
        ''event'' \<mapsto> EventObject (event t))"

subsection \<open>ticketIncludedFields\<close>

text \<open>
  The \<open>include\<close> of every query, applied to one ticket row. \<open>now\<close> is the
  \<open>new Date()\<close> of the Consumable filter. A Prisma comparison with a null column does
  not match.
\<close>

definition consumable_where :: "DBShopIdentification \<Rightarrow> date \<Rightarrow> Consumable \<Rightarrow> bool" where
  "consumable_where dbId now c \<longleftrightarrow>
     dbId (consumable_cols c) \<and>
     (purchasedAt c \<noteq> None
      \<or> (case expiresAt c of None \<Rightarrow> False | Some e \<Rightarrow> e > now)
      \<or> expiresAt c = None)"

definition ticketIncludedFields :: "DBShopIdentification \<Rightarrow> date \<Rightarrow> TicketRow \<Rightarrow> TicketFromPrisma" where
  "ticketIncludedFields dbId now r =
     \<lparr> ticket_id = ticket_id r,
       stock = stock r,
       maxAmountPerUser = maxAmountPerUser r,
       ticket_cols = ticket_cols r,
       shoppable =
         \<lparr> availableFrom = availableFrom (row_shoppable r),
           availableTo = availableTo (row_shoppable r),
           removedAt = removedAt (row_shoppable r),
           shoppable_cols = shoppable_cols (row_shoppable r),
           consumables = filter (consumable_where dbId now) (row_consumables r),
           reservations = filter (\<lambda>x. dbId (reservation_cols x)) (row_reservations r),
           shoppable_count =
             \<lparr> count_consumables =
                 length (filter (\<lambda>c. purchasedAt c \<noteq> None) (row_consumables r)),
               count_reservations =
                 length (filter (\<lambda>x. order x \<noteq> None) (row_reservations r)) \<rparr> \<rparr>,
       event = row_event r \<rparr>"

subsection \<open>formatTicket\<close>

text \<open>
  \<open>GRACE_PERIOD_WINDOW\<close> is a constant imported from \<open>./types\<close>; its value is left
  open, as the first argument. The object literal spreads the Shoppable, then the
  ticket, then sets the derived properties; then the four properties are deleted.
  \<open>!c.purchasedAt\<close> holds exactly when the column is null, a \<open>Date\<close> being an object.
\<close>

definition formatTicket :: "int \<Rightarrow> TicketFromPrisma \<Rightarrow> object" where
  "formatTicket GRACE_PERIOD_WINDOW ticket =
     (let base =
        (shoppable_object (shoppable ticket) ++ ticket_object ticket)
          (''userItemsInCart'' \<mapsto> ConsumableArray (consumables (shoppable ticket)),
           ''userReservations'' \<mapsto> ReservationArray (reservations (shoppable ticket)),
           ''gracePeriodEndsAt'' \<mapsto>
              Prim (SDate (availableFrom (shoppable ticket) + GRACE_PERIOD_WINDOW)),
           ''isInUsersCart'' \<mapsto>
              Prim (SBool
                (length (filter (\<lambda>c. purchasedAt c = None) (consumables (shoppable ticket))) > 0
                 \<or> length (reservations (shoppable ticket)) > 0)),
           ''userAlreadyHasMax'' \<mapsto>
              Prim (SBool
                (int (length (filter (\<lambda>c. purchasedAt c \<noteq> None) (consumables (shoppable ticket))))
                 \<ge> maxAmountPerUser ticket)),
           ''ticketsLeft'' \<mapsto>
              Prim (SNum
                (min (stock ticket - int (count_consumables (shoppable_count (shoppable ticket))))
                     10)),
           ''hasQueue'' \<mapsto>
              Prim (SBool (count_reservations (shoppable_count (shoppable ticket)) > 0)))
      in base(''consumables'' := None, ''reservations'' := None,
              ''shoppable'' := None, ''_count'' := None))"

subsection \<open>getTicket and getTickets\<close>

text \<open>
  \<open>findFirst\<close> with \<open>where: { id }\<close> gives the first row with that id, or null; the
  function returns null then, and the projection otherwise.
\<close>

definition getTicket ::
  "int \<Rightarrow> TicketRow list \<Rightarrow> string \<Rightarrow> DBShopIdentification \<Rightarrow> date \<Rightarrow> object option" where
  "getTicket GRACE_PERIOD_WINDOW db i dbId now =
     (case find (\<lambda>r. ticket_id r = i) db of
        None \<Rightarrow> None
      | Some r \<Rightarrow> Some (formatTicket GRACE_PERIOD_WINDOW (ticketIncludedFields dbId now r)))"

text \<open>
  \<open>dayjs().subtract(10, "days").toDate()\<close>. Without the UTC plugin \<open>dayjs\<close> adds days
  through \<open>Date.prototype.setDate\<close>, that is on the local calendar: the time value is
  turned into local time, ten days of 86400000 ms are taken off there, and the result is
  turned back. The two conversions are those of ECMAScript, \<open>LocalTime\<close> and \<open>UTC\<close>,
  over the offset \<open>LocalTZA(t, isUTC)\<close> of the time zone of the process, which is an
  argument: \<open>tz t True\<close> is the offset in ms at the time value \<open>t\<close>, and \<open>tz t False\<close> the
  offset at the local time \<open>t\<close>. Where the zone changes its offset between the two ends,
  the result is not the clock value minus 864000000 ms.
\<close>

type_synonym TimeZone = "date \<Rightarrow> bool \<Rightarrow> int"

definition LocalTime :: "TimeZone \<Rightarrow> date \<Rightarrow> date" where
  "LocalTime tz t = t + tz t True"

definition UTC :: "TimeZone \<Rightarrow> date \<Rightarrow> date" where
  "UTC tz t = t - tz t False"

definition dayjs_subtract_days :: "TimeZone \<Rightarrow> int \<Rightarrow> date \<Rightarrow> date" where
  "dayjs_subtract_days tz n now = UTC tz (LocalTime tz now - n * 86400000)"

text \<open>
  The \<open>where\<close> of \<open>getTickets\<close> on the Shoppable of a row: \<open>tenDaysAgo\<close> is the
  constant of that name, \<open>nowWhere\<close> the clock read by the \<open>new Date()\<close> of the
  \<open>removedAt\<close> condition (\<open>lt\<close>).
\<close>

definition tickets_where :: "date \<Rightarrow> date \<Rightarrow> Shoppable \<Rightarrow> bool" where
  "tickets_where tenDaysAgo nowWhere s \<longleftrightarrow>
     (removedAt s = None \<or> (case removedAt s of None \<Rightarrow> False | Some d \<Rightarrow> d < nowWhere))
     \<and> (availableTo s = None
        \<or> (case availableTo s of None \<Rightarrow> False | Some d \<Rightarrow> d > tenDaysAgo))"

text \<open>
  \<open>getTickets\<close>: \<open>nowDayjs\<close> is the clock read by \<open>dayjs()\<close>. The rows that match are
  ordered by \<open>availableFrom\<close>, ascending (rows with equal keys keep their order), loaded
  with the include, and projected.
\<close>

definition getTickets ::
  "int \<Rightarrow> TicketRow list \<Rightarrow> DBShopIdentification \<Rightarrow> TimeZone \<Rightarrow> date \<Rightarrow> date \<Rightarrow> date
     \<Rightarrow> object list" where
  "getTickets GRACE_PERIOD_WINDOW db dbId tz nowDayjs nowWhere nowInclude =
     (let tenDaysAgo = dayjs_subtract_days tz 10 nowDayjs
      in map (formatTicket GRACE_PERIOD_WINDOW)
           (map (ticketIncludedFields dbId nowInclude)
              (sort_key (\<lambda>r. availableFrom (row_shoppable r))
                 (filter (\<lambda>r. tickets_where tenDaysAgo nowWhere (row_shoppable r)) db))))"

text \<open>
  The tickets of a listing are told apart by their \<open>id\<close> property, which the spread of
  the ticket puts into the projection: a ticket is listed when some object of the result
  carries its id.
\<close>

definition listed :: "object list \<Rightarrow> string \<Rightarrow> bool" where
  "listed out i \<longleftrightarrow> (\<exists>p\<in>set out. p ''id'' = Some (Prim (SStr i)))"

subsection \<open>Example rows\<close>

text \<open>
  Concrete rows on which the statements below are evaluated. The requester is the member
  \<open>m1\<close>; \<open>dbIdentification\<close> is taken to match the \<open>memberId\<close> column.
\<close>

definition member1 :: DBShopIdentification where
  "member1 cols \<longleftrightarrow> map_of cols ''memberId'' = Some (SStr ''m1'')"

definition purchased_by :: "string \<Rightarrow> date \<Rightarrow> Consumable" where
  "purchased_by m d =
     \<lparr> purchasedAt = Some d, expiresAt = None, consumable_cols = [(''memberId'', SStr m)] \<rparr>"

definition in_cart_of :: "string \<Rightarrow> date option \<Rightarrow> Consumable" where
  "in_cart_of m e =
     \<lparr> purchasedAt = None, expiresAt = e, consumable_cols = [(''memberId'', SStr m)] \<rparr>"

definition reservation_of :: "string \<Rightarrow> int option \<Rightarrow> ConsumableReservation" where
  "reservation_of m p = \<lparr> order = p, reservation_cols = [(''memberId'', SStr m)] \<rparr>"

text \<open>
  Two time zones: one with no offset, and Europe/Stockholm around its change from
  UTC+2 to UTC+1 on 27 October 2024 at 01:00 UTC (time value 1729990800000, local time
  value 1729998000000 before the change; the repeated local hour takes the offset from
  before the change).
\<close>

definition utc_zone :: TimeZone where
  "utc_zone t isUTC = 0"

definition stockholm_autumn_2024 :: TimeZone where
  "stockholm_autumn_2024 t isUTC =
     (if isUTC then (if t < 1729990800000 then 7200000 else 3600000)
      else (if t < 1729998000000 then 7200000 else 3600000))"

definition example_event :: EventWithTags where
  "example_event = \<lparr> event_cols = [(''title'', SStr ''Sittning'')], tags = [] \<rparr>"

definition example_row ::
  "string \<Rightarrow> int \<Rightarrow> int \<Rightarrow> date option \<Rightarrow> date option \<Rightarrow> Consumable list
     \<Rightarrow> ConsumableReservation list \<Rightarrow> TicketRow" where
  "example_row i s m avTo rem cs rs =
     \<lparr> ticket_id = i, stock = s, maxAmountPerUser = m, ticket_cols = [(''eventId'', SStr ''e1'')],
       row_shoppable = \<lparr> availableFrom = 1000, availableTo = avTo, removedAt = rem,
                         shoppable_cols = [(''title'', SStr ''Biljett'')] \<rparr>,
       row_consumables = cs, row_reservations = rs, row_event = example_event \<rparr>"

section \<open>Properties\<close>

subsection \<open>The properties of the projected object\<close>

text \<open>Each property of the result, read off the object literal and the deletions.\<close>

lemma formatTicket_deleted:
  "formatTicket G t ''consumables'' = None"
  "formatTicket G t ''reservations'' = None"
  "formatTicket G t ''shoppable'' = None"
  "formatTicket G t ''_count'' = None"
  by (simp_all add: formatTicket_def)

lemma formatTicket_userItemsInCart:
  "formatTicket G t ''userItemsInCart'' = Some (ConsumableArray (consumables (shoppable t)))"
  by (simp add: formatTicket_def)

lemma formatTicket_userReservations:
  "formatTicket G t ''userReservations'' = Some (ReservationArray (reservations (shoppable t)))"
  by (simp add: formatTicket_def)

lemma formatTicket_gracePeriodEndsAt:
  "formatTicket G t ''gracePeriodEndsAt'' = Some (Prim (SDate (availableFrom (shoppable t) + G)))"
  by (simp add: formatTicket_def)

lemma formatTicket_isInUsersCart:
  "formatTicket G t ''isInUsersCart'' =
     Some (Prim (SBool (filter (\<lambda>c. purchasedAt c = None) (consumables (shoppable t)) \<noteq> []
                        \<or> reservations (shoppable t) \<noteq> [])))"
  by (simp add: formatTicket_def)

lemma formatTicket_userAlreadyHasMax:
  "formatTicket G t ''userAlreadyHasMax'' =
     Some (Prim (SBool (maxAmountPerUser t
        \<le> int (length (filter (\<lambda>c. purchasedAt c \<noteq> None) (consumables (shoppable t)))))))"
  by (simp add: formatTicket_def)

lemma formatTicket_ticketsLeft:
  "formatTicket G t ''ticketsLeft'' =
     Some (Prim (SNum (min (stock t - int (count_consumables (shoppable_count (shoppable t)))) 10)))"
  by (simp add: formatTicket_def)

lemma formatTicket_hasQueue:
  "formatTicket G t ''hasQueue'' =
     Some (Prim (SBool (count_reservations (shoppable_count (shoppable t)) > 0)))"
  by (simp add: formatTicket_def)

lemma formatTicket_id:
  "formatTicket G t ''id'' = Some (Prim (SStr (ticket_id t)))"
  by (simp add: formatTicket_def ticket_object_def)

subsection \<open>What the include loads\<close>

lemma included_scalars:
  "ticket_id (ticketIncludedFields dbId now r) = ticket_id r"
  "stock (ticketIncludedFields dbId now r) = stock r"
  "maxAmountPerUser (ticketIncludedFields dbId now r) = maxAmountPerUser r"
  "availableFrom (shoppable (ticketIncludedFields dbId now r)) = availableFrom (row_shoppable r)"
  "availableTo (shoppable (ticketIncludedFields dbId now r)) = availableTo (row_shoppable r)"
  "removedAt (shoppable (ticketIncludedFields dbId now r)) = removedAt (row_shoppable r)"
  by (simp_all add: ticketIncludedFields_def)

lemma included_consumables:
  "consumables (shoppable (ticketIncludedFields dbId now r))
     = filter (consumable_where dbId now) (row_consumables r)"
  by (simp add: ticketIncludedFields_def)

lemma included_reservations:
  "reservations (shoppable (ticketIncludedFields dbId now r))
     = filter (\<lambda>x. dbId (reservation_cols x)) (row_reservations r)"
  by (simp add: ticketIncludedFields_def)

lemma included_count:
  "count_consumables (shoppable_count (shoppable (ticketIncludedFields dbId now r)))
     = length (filter (\<lambda>c. purchasedAt c \<noteq> None) (row_consumables r))"
  "count_reservations (shoppable_count (shoppable (ticketIncludedFields dbId now r)))
     = length (filter (\<lambda>x. order x \<noteq> None) (row_reservations r))"
  by (simp_all add: ticketIncludedFields_def)

lemma filter_nonempty_iff: "filter P xs \<noteq> [] \<longleftrightarrow> (\<exists>x\<in>set xs. P x)"
  by (simp add: filter_empty_conv)

subsection \<open>ticketsLeft\<close>

text \<open>
  Claim C2. \<open>ticketsLeft\<close> is the smaller of 10 and the stock minus the loaded count of
  Consumables; the loaded count is the number of purchased Consumables of the ticket, whoever
  owns them. So the value is at most 10, is 10 when at least 10 are left, is the exact
  number left below 10, and nothing stops it at zero: it is negative when more were
  purchased than the stock holds.
\<close>

theorem ticketsLeft_capped_at_ten:
  "formatTicket G t ''ticketsLeft'' =
      Some (Prim (SNum (min (stock t - int (count_consumables (shoppable_count (shoppable t)))) 10)))
   \<and> count_consumables (shoppable_count (shoppable (ticketIncludedFields dbId now r)))
      = length (filter (\<lambda>c. purchasedAt c \<noteq> None) (row_consumables r))
   \<and> (let left = stock r - int (length (filter (\<lambda>c. purchasedAt c \<noteq> None) (row_consumables r)))
      in \<exists>n. formatTicket G (ticketIncludedFields dbId now r) ''ticketsLeft'' = Some (Prim (SNum n))
            \<and> n = min left 10 \<and> n \<le> 10
            \<and> (left \<ge> 10 \<longrightarrow> n = 10) \<and> (left < 10 \<longrightarrow> n = left))"
  by (simp add: formatTicket_ticketsLeft included_count included_scalars Let_def)

text \<open>
  With two purchases out of a stock of 25 the client sees 10, out of 5 it sees 3; with three
  purchases out of a stock of 1 it sees -2.
\<close>

theorem ticketsLeft_capped_at_ten_witness:
  "formatTicket 0 (ticketIncludedFields member1 5000
      (example_row ''t1'' 25 2 None None
         [purchased_by ''m1'' 1, purchased_by ''m2'' 2, in_cart_of ''m3'' (Some 9000)] []))
      ''ticketsLeft'' = Some (Prim (SNum 10))
   \<and> formatTicket 0 (ticketIncludedFields member1 5000
      (example_row ''t1'' 5 2 None None
         [purchased_by ''m1'' 1, purchased_by ''m2'' 2, in_cart_of ''m3'' (Some 9000)] []))
      ''ticketsLeft'' = Some (Prim (SNum 3))
   \<and> formatTicket 0 (ticketIncludedFields member1 5000
      (example_row ''t1'' 1 2 None None
         [purchased_by ''m1'' 1, purchased_by ''m2'' 2, purchased_by ''m3'' 3] []))
      ''ticketsLeft'' = Some (Prim (SNum (- 2)))"
  using
    ticketsLeft_capped_at_ten [of 0 _ member1 5000
      "example_row ''t1'' 25 2 None None
         [purchased_by ''m1'' 1, purchased_by ''m2'' 2, in_cart_of ''m3'' (Some 9000)] []"]
    ticketsLeft_capped_at_ten [of 0 _ member1 5000
      "example_row ''t1'' 5 2 None None
         [purchased_by ''m1'' 1, purchased_by ''m2'' 2, in_cart_of ''m3'' (Some 9000)] []"]
    ticketsLeft_capped_at_ten [of 0 _ member1 5000
      "example_row ''t1'' 1 2 None None
         [purchased_by ''m1'' 1, purchased_by ''m2'' 2, purchased_by ''m3'' 3] []"]
  by (simp add: example_row_def purchased_by_def in_cart_of_def Let_def
        included_scalars included_count)

subsection \<open>The deleted properties, and what still shows the loaded relations\<close>

lemma count_reaches_two_properties:
  "k \<noteq> ''ticketsLeft'' \<Longrightarrow> k \<noteq> ''hasQueue'' \<Longrightarrow>
   formatTicket G (t\<lparr>shoppable := (shoppable t)\<lparr>shoppable_count := c\<rparr>\<rparr>) k = formatTicket G t k"
  by (simp add: formatTicket_def ticket_object_def shoppable_object_def map_add_def
        split: option.splits)

lemma lists_reach_four_properties:
  "k \<noteq> ''userItemsInCart'' \<Longrightarrow> k \<noteq> ''userReservations'' \<Longrightarrow>
   k \<noteq> ''isInUsersCart'' \<Longrightarrow> k \<noteq> ''userAlreadyHasMax'' \<Longrightarrow>
   formatTicket G (t\<lparr>shoppable := (shoppable t)\<lparr>consumables := cs, reservations := rs\<rparr>\<rparr>) k
     = formatTicket G t k"
  by (simp add: formatTicket_def ticket_object_def shoppable_object_def map_add_def
        split: option.splits)

text \<open>
  Claim C3, as amended. The projection never has a property \<open>consumables\<close>,
  \<open>reservations\<close>, \<open>_count\<close> or \<open>shoppable\<close>. The loaded counts reach the result
  through \<open>ticketsLeft\<close> and \<open>hasQueue\<close> only: replacing \<open>_count\<close> in the input changes
  no other property. The requester's record lists reach it through \<open>isInUsersCart\<close> and
  \<open>userAlreadyHasMax\<close> and, unlike the claim says, through \<open>userItemsInCart\<close> and
  \<open>userReservations\<close>, which hold the loaded lists in full; replacing the lists in the
  input changes no other property.
\<close>

theorem formatTicket_strips_raw_fields:
  "formatTicket G t ''consumables'' = None
   \<and> formatTicket G t ''reservations'' = None
   \<and> formatTicket G t ''_count'' = None
   \<and> formatTicket G t ''shoppable'' = None
   \<and> formatTicket G t ''userItemsInCart'' = Some (ConsumableArray (consumables (shoppable t)))
   \<and> formatTicket G t ''userReservations'' = Some (ReservationArray (reservations (shoppable t)))
   \<and> (\<forall>k. k \<notin> {''ticketsLeft'', ''hasQueue''} \<longrightarrow>
        formatTicket G (t\<lparr>shoppable := (shoppable t)\<lparr>shoppable_count := c\<rparr>\<rparr>) k
          = formatTicket G t k)
   \<and> (\<forall>k. k \<notin> {''userItemsInCart'', ''userReservations'',
                ''isInUsersCart'', ''userAlreadyHasMax''} \<longrightarrow>
        formatTicket G (t\<lparr>shoppable := (shoppable t)\<lparr>consumables := cs, reservations := rs\<rparr>\<rparr>) k
          = formatTicket G t k)"
  by (simp add: formatTicket_deleted formatTicket_userItemsInCart formatTicket_userReservations
        count_reaches_two_properties lists_reach_four_properties)

text \<open>
  On a loaded example ticket: the four properties are absent, and another \<open>_count\<close> or
  other record lists leave the \<open>id\<close> and the \<open>stock\<close> of the projection as they were.
\<close>

theorem formatTicket_strips_raw_fields_witness:
  "formatTicket 0 (ticketIncludedFields member1 5000
      (example_row ''t1'' 5 2 None None [purchased_by ''m1'' 1] [reservation_of ''m1'' None]))
      ''consumables'' = None
   \<and> formatTicket 0 (ticketIncludedFields member1 5000
      (example_row ''t1'' 5 2 None None [purchased_by ''m1'' 1] [reservation_of ''m1'' None]))
      ''_count'' = None
   \<and> formatTicket 0
       ((ticketIncludedFields member1 5000
          (example_row ''t1'' 5 2 None None [purchased_by ''m1'' 1] [reservation_of ''m1'' None]))
        \<lparr>shoppable :=
           (shoppable (ticketIncludedFields member1 5000
              (example_row ''t1'' 5 2 None None [purchased_by ''m1'' 1] [reservation_of ''m1'' None])))
           \<lparr>shoppable_count := \<lparr>count_consumables = 40, count_reservations = 7\<rparr>\<rparr>\<rparr>)
       ''id''
     = Some (Prim (SStr ''t1''))
   \<and> formatTicket 0
       ((ticketIncludedFields member1 5000
          (example_row ''t1'' 5 2 None None [purchased_by ''m1'' 1] [reservation_of ''m1'' None]))
        \<lparr>shoppable :=
           (shoppable (ticketIncludedFields member1 5000
              (example_row ''t1'' 5 2 None None [purchased_by ''m1'' 1] [reservation_of ''m1'' None])))
           \<lparr>consumables := [], reservations := []\<rparr>\<rparr>)
       ''stock''
     = Some (Prim (SNum 5))"
proof -
  let ?t = "ticketIncludedFields member1 5000
      (example_row ''t1'' 5 2 None None [purchased_by ''m1'' 1] [reservation_of ''m1'' None])"
  note s = formatTicket_strips_raw_fields
    [of 0 ?t "\<lparr>count_consumables = 40, count_reservations = 7\<rparr>" "[]" "[]"]
  have i: "formatTicket 0 ?t ''id'' = Some (Prim (SStr ''t1''))"
    by (simp add: formatTicket_id included_scalars example_row_def)
  have k: "formatTicket 0 ?t ''stock'' = Some (Prim (SNum 5))"
    by (simp add: formatTicket_def ticket_object_def included_scalars example_row_def)
  from s have "formatTicket 0
       (?t\<lparr>shoppable := (shoppable ?t)
            \<lparr>shoppable_count := \<lparr>count_consumables = 40, count_reservations = 7\<rparr>\<rparr>\<rparr>) ''id''
       = formatTicket 0 ?t ''id''"
    by simp
  moreover from s have "formatTicket 0
       (?t\<lparr>shoppable := (shoppable ?t)\<lparr>consumables := [], reservations := []\<rparr>\<rparr>) ''stock''
       = formatTicket 0 ?t ''stock''"
    by simp
  ultimately show ?thesis
    using s i k by simp
qed

text \<open>
  Claim C3 as stated fails. Two loaded tickets that differ only in when the requester
  bought the one Consumable they hold have the same \<open>isInUsersCart\<close>,
  \<open>userAlreadyHasMax\<close>, \<open>ticketsLeft\<close> and \<open>hasQueue\<close>, yet the projections differ: each
  carries the requester's Consumable records in \<open>userItemsInCart\<close>.
\<close>

theorem formatTicket_exposes_own_records:
  "formatTicket 0 (ticketIncludedFields member1 5000
      (example_row ''t1'' 5 2 None None [purchased_by ''m1'' 1, purchased_by ''m2'' 7] []))
      ''userItemsInCart'' = Some (ConsumableArray [purchased_by ''m1'' 1])
   \<and> formatTicket 0 (ticketIncludedFields member1 5000
      (example_row ''t1'' 5 2 None None [purchased_by ''m1'' 2, purchased_by ''m2'' 7] []))
      ''userItemsInCart'' = Some (ConsumableArray [purchased_by ''m1'' 2])
   \<and> formatTicket 0 (ticketIncludedFields member1 5000
        (example_row ''t1'' 5 2 None None [purchased_by ''m1'' 1, purchased_by ''m2'' 7] []))
        ''isInUsersCart''
      = formatTicket 0 (ticketIncludedFields member1 5000
        (example_row ''t1'' 5 2 None None [purchased_by ''m1'' 2, purchased_by ''m2'' 7] []))
        ''isInUsersCart''
   \<and> formatTicket 0 (ticketIncludedFields member1 5000
        (example_row ''t1'' 5 2 None None [purchased_by ''m1'' 1, purchased_by ''m2'' 7] []))
        ''userAlreadyHasMax''
      = formatTicket 0 (ticketIncludedFields member1 5000
        (example_row ''t1'' 5 2 None None [purchased_by ''m1'' 2, purchased_by ''m2'' 7] []))
        ''userAlreadyHasMax''
   \<and> formatTicket 0 (ticketIncludedFields member1 5000
        (example_row ''t1'' 5 2 None None [purchased_by ''m1'' 1, purchased_by ''m2'' 7] []))
        ''ticketsLeft''
      = formatTicket 0 (ticketIncludedFields member1 5000
        (example_row ''t1'' 5 2 None None [purchased_by ''m1'' 2, purchased_by ''m2'' 7] []))
        ''ticketsLeft''
   \<and> formatTicket 0 (ticketIncludedFields member1 5000
        (example_row ''t1'' 5 2 None None [purchased_by ''m1'' 1, purchased_by ''m2'' 7] []))
        ''hasQueue''
      = formatTicket 0 (ticketIncludedFields member1 5000
        (example_row ''t1'' 5 2 None None [purchased_by ''m1'' 2, purchased_by ''m2'' 7] []))
        ''hasQueue''
   \<and> formatTicket 0 (ticketIncludedFields member1 5000
        (example_row ''t1'' 5 2 None None [purchased_by ''m1'' 1, purchased_by ''m2'' 7] []))
      \<noteq> formatTicket 0 (ticketIncludedFields member1 5000
        (example_row ''t1'' 5 2 None None [purchased_by ''m1'' 2, purchased_by ''m2'' 7] []))"
proof -
  let ?a = "ticketIncludedFields member1 5000
      (example_row ''t1'' 5 2 None None [purchased_by ''m1'' 1, purchased_by ''m2'' 7] [])"
  let ?b = "ticketIncludedFields member1 5000
      (example_row ''t1'' 5 2 None None [purchased_by ''m1'' 2, purchased_by ''m2'' 7] [])"
  have a: "formatTicket 0 ?a ''userItemsInCart'' = Some (ConsumableArray [purchased_by ''m1'' 1])"
    by (simp add: formatTicket_userItemsInCart included_consumables example_row_def
          consumable_where_def member1_def purchased_by_def)
  have b: "formatTicket 0 ?b ''userItemsInCart'' = Some (ConsumableArray [purchased_by ''m1'' 2])"
    by (simp add: formatTicket_userItemsInCart included_consumables example_row_def
          consumable_where_def member1_def purchased_by_def)
  have c: "formatTicket 0 ?a ''isInUsersCart'' = formatTicket 0 ?b ''isInUsersCart''"
    by (simp add: formatTicket_isInUsersCart included_consumables included_reservations
          example_row_def consumable_where_def member1_def purchased_by_def)
  have d: "formatTicket 0 ?a ''userAlreadyHasMax'' = formatTicket 0 ?b ''userAlreadyHasMax''"
    by (simp add: formatTicket_userAlreadyHasMax included_consumables included_scalars
          example_row_def consumable_where_def member1_def purchased_by_def)
  have e: "formatTicket 0 ?a ''ticketsLeft'' = formatTicket 0 ?b ''ticketsLeft''"
    by (simp add: formatTicket_ticketsLeft included_count included_scalars
          example_row_def purchased_by_def)
  have f: "formatTicket 0 ?a ''hasQueue'' = formatTicket 0 ?b ''hasQueue''"
    by (simp add: formatTicket_hasQueue included_count example_row_def)
  have "formatTicket 0 ?a ''userItemsInCart'' \<noteq> formatTicket 0 ?b ''userItemsInCart''"
    unfolding a b by (simp add: purchased_by_def)
  then have g: "formatTicket 0 ?a \<noteq> formatTicket 0 ?b"
    by metis
  from a b c d e f g show ?thesis
    by (intro conjI)
qed

subsection \<open>isInUsersCart\<close>

lemma gt_case_iff:
  "(case x of None \<Rightarrow> False | Some (e::int) \<Rightarrow> e > n) \<longleftrightarrow> (\<exists>e. x = Some e \<and> e > n)"
  by (cases x) simp_all

lemma owned_purchased:
  "filter (\<lambda>c. purchasedAt c \<noteq> None) (filter (consumable_where dbId now) cs)
     = filter (\<lambda>c. dbId (consumable_cols c) \<and> purchasedAt c \<noteq> None) cs"
  by (induction cs) (auto simp add: consumable_where_def)

text \<open>
  Claim C4. \<open>isInUsersCart\<close> is true exactly when the loaded Consumables hold one with
  a null \<open>purchasedAt\<close> or there is a loaded reservation, so it is false for a requester
  with purchased Consumables only and no reservation. The loaded Consumables are the
  requester's that are purchased, or expire after now, or never expire; the loaded
  reservations are the requester's. On a ticket row this makes \<open>isInUsersCart\<close> true
  exactly when the requester has a Consumable that is not purchased and has not expired,
  or a reservation.
\<close>

theorem isInUsersCart_iff:
  "formatTicket G t ''isInUsersCart'' =
      Some (Prim (SBool ((\<exists>c\<in>set (consumables (shoppable t)). purchasedAt c = None)
                         \<or> (\<exists>x. x \<in> set (reservations (shoppable t))))))
   \<and> ((\<forall>c\<in>set (consumables (shoppable t)). purchasedAt c \<noteq> None)
        \<and> reservations (shoppable t) = []
      \<longrightarrow> formatTicket G t ''isInUsersCart'' = Some (Prim (SBool False)))
   \<and> set (consumables (shoppable (ticketIncludedFields dbId now r)))
       = {c \<in> set (row_consumables r). dbId (consumable_cols c)
            \<and> (purchasedAt c \<noteq> None \<or> (\<exists>e. expiresAt c = Some e \<and> e > now) \<or> expiresAt c = None)}
   \<and> set (reservations (shoppable (ticketIncludedFields dbId now r)))
       = {x \<in> set (row_reservations r). dbId (reservation_cols x)}
   \<and> formatTicket G (ticketIncludedFields dbId now r) ''isInUsersCart'' =
      Some (Prim (SBool
        ((\<exists>c\<in>set (row_consumables r). dbId (consumable_cols c) \<and> purchasedAt c = None
              \<and> ((\<exists>e. expiresAt c = Some e \<and> e > now) \<or> expiresAt c = None))
         \<or> (\<exists>x\<in>set (row_reservations r). dbId (reservation_cols x)))))"
proof -
  have ne: "(\<exists>x. x \<in> set xs) \<longleftrightarrow> xs \<noteq> []" for xs :: "ConsumableReservation list"
    by (cases xs) auto
  have a: "formatTicket G t ''isInUsersCart'' =
      Some (Prim (SBool ((\<exists>c\<in>set (consumables (shoppable t)). purchasedAt c = None)
                         \<or> (\<exists>x. x \<in> set (reservations (shoppable t))))))" for t
    by (simp add: formatTicket_isInUsersCart filter_nonempty_iff ne)
  have b: "(\<forall>c\<in>set (consumables (shoppable t)). purchasedAt c \<noteq> None)
        \<and> reservations (shoppable t) = []
      \<longrightarrow> formatTicket G t ''isInUsersCart'' = Some (Prim (SBool False))"
    by (simp add: a)
  have c: "set (consumables (shoppable (ticketIncludedFields dbId now r)))
       = {c \<in> set (row_consumables r). dbId (consumable_cols c)
            \<and> (purchasedAt c \<noteq> None \<or> (\<exists>e. expiresAt c = Some e \<and> e > now) \<or> expiresAt c = None)}"
    by (simp add: included_consumables consumable_where_def gt_case_iff)
  have d: "set (reservations (shoppable (ticketIncludedFields dbId now r)))
       = {x \<in> set (row_reservations r). dbId (reservation_cols x)}"
    by (simp add: included_reservations)
  have e: "formatTicket G (ticketIncludedFields dbId now r) ''isInUsersCart'' =
      Some (Prim (SBool
        ((\<exists>c\<in>set (row_consumables r). dbId (consumable_cols c) \<and> purchasedAt c = None
              \<and> ((\<exists>e. expiresAt c = Some e \<and> e > now) \<or> expiresAt c = None))
         \<or> (\<exists>x\<in>set (row_reservations r). dbId (reservation_cols x)))))"
    unfolding a c d by auto
  from a b c d e show ?thesis by blast
qed

text \<open>
  The requester \<open>m1\<close> with an unexpired cart item, or with a reservation, gets true; with
  purchases only gets false, whatever other members hold.
\<close>

theorem isInUsersCart_iff_witness:
  "formatTicket 0 (ticketIncludedFields member1 5000
      (example_row ''t1'' 5 2 None None [in_cart_of ''m1'' (Some 9000)] []))
      ''isInUsersCart'' = Some (Prim (SBool True))
   \<and> formatTicket 0 (ticketIncludedFields member1 5000
      (example_row ''t1'' 5 2 None None [purchased_by ''m1'' 1] [reservation_of ''m1'' None]))
      ''isInUsersCart'' = Some (Prim (SBool True))
   \<and> formatTicket 0 (ticketIncludedFields member1 5000
      (example_row ''t1'' 5 2 None None
         [purchased_by ''m1'' 1, purchased_by ''m1'' 2, in_cart_of ''m2'' (Some 9000)]
         [reservation_of ''m2'' (Some 1)]))
      ''isInUsersCart'' = Some (Prim (SBool False))"
proof -
  note on_row = isInUsersCart_iff
    [where G = 0 and dbId = member1 and now = 5000,
     THEN conjunct2, THEN conjunct2, THEN conjunct2, THEN conjunct2]
  have "formatTicket 0 (ticketIncludedFields member1 5000
      (example_row ''t1'' 5 2 None None [in_cart_of ''m1'' (Some 9000)] []))
      ''isInUsersCart'' = Some (Prim (SBool True))"
    unfolding on_row
    by (simp add: example_row_def member1_def in_cart_of_def)
  moreover
  have "formatTicket 0 (ticketIncludedFields member1 5000
      (example_row ''t1'' 5 2 None None [purchased_by ''m1'' 1] [reservation_of ''m1'' None]))
      ''isInUsersCart'' = Some (Prim (SBool True))"
    unfolding on_row
    by (simp add: example_row_def member1_def purchased_by_def reservation_of_def)
  moreover
  have "formatTicket 0 (ticketIncludedFields member1 5000
      (example_row ''t1'' 5 2 None None
         [purchased_by ''m1'' 1, purchased_by ''m1'' 2, in_cart_of ''m2'' (Some 9000)]
         [reservation_of ''m2'' (Some 1)]))
      ''isInUsersCart'' = Some (Prim (SBool False))"
    unfolding on_row
    by (simp add: example_row_def member1_def purchased_by_def in_cart_of_def reservation_of_def)
  ultimately show ?thesis
    by (intro conjI)
qed

subsection \<open>userAlreadyHasMax\<close>

text \<open>
  Claim C5. \<open>userAlreadyHasMax\<close> is true exactly when the number of loaded Consumables
  with a non-null \<open>purchasedAt\<close> is at least \<open>maxAmountPerUser\<close>; on a ticket row that
  number is the number of the requester's purchased Consumables. With a maximum of 2, two
  purchased Consumables give true and one gives false.
\<close>

theorem userAlreadyHasMax_iff:
  "formatTicket G t ''userAlreadyHasMax'' =
      Some (Prim (SBool (int (length (filter (\<lambda>c. purchasedAt c \<noteq> None) (consumables (shoppable t))))
                          \<ge> maxAmountPerUser t)))
   \<and> formatTicket G (ticketIncludedFields dbId now r) ''userAlreadyHasMax'' =
      Some (Prim (SBool
        (int (length (filter (\<lambda>c. dbId (consumable_cols c) \<and> purchasedAt c \<noteq> None) (row_consumables r)))
           \<ge> maxAmountPerUser r)))
   \<and> (maxAmountPerUser t = 2 \<longrightarrow>
        (length (filter (\<lambda>c. purchasedAt c \<noteq> None) (consumables (shoppable t))) = 2
           \<longrightarrow> formatTicket G t ''userAlreadyHasMax'' = Some (Prim (SBool True)))
      \<and> (length (filter (\<lambda>c. purchasedAt c \<noteq> None) (consumables (shoppable t))) = 1
           \<longrightarrow> formatTicket G t ''userAlreadyHasMax'' = Some (Prim (SBool False))))"
  unfolding formatTicket_userAlreadyHasMax included_consumables included_scalars owned_purchased
  by simp

theorem userAlreadyHasMax_iff_witness:
  "formatTicket 0 (ticketIncludedFields member1 5000
      (example_row ''t1'' 50 2 None None
         [purchased_by ''m1'' 1, purchased_by ''m1'' 2, purchased_by ''m2'' 3] []))
      ''userAlreadyHasMax'' = Some (Prim (SBool True))
   \<and> formatTicket 0 (ticketIncludedFields member1 5000
      (example_row ''t1'' 50 2 None None
         [purchased_by ''m1'' 1, purchased_by ''m2'' 2, purchased_by ''m2'' 3,
          in_cart_of ''m1'' (Some 9000)] []))
      ''userAlreadyHasMax'' = Some (Prim (SBool False))"
  using
    userAlreadyHasMax_iff [of 0 _ member1 5000
      "example_row ''t1'' 50 2 None None
         [purchased_by ''m1'' 1, purchased_by ''m1'' 2, purchased_by ''m2'' 3] []"]
    userAlreadyHasMax_iff [of 0 _ member1 5000
      "example_row ''t1'' 50 2 None None
         [purchased_by ''m1'' 1, purchased_by ''m2'' 2, purchased_by ''m2'' 3,
          in_cart_of ''m1'' (Some 9000)] []"]
  by (simp add: example_row_def member1_def purchased_by_def in_cart_of_def
        included_consumables included_scalars consumable_where_def)

subsection \<open>hasQueue\<close>

text \<open>
  Claim C6. \<open>hasQueue\<close> is true exactly when the loaded reservation count is positive,
  and that count is taken over the reservations of the ticket of every user: on a ticket
  row \<open>hasQueue\<close> is true exactly when one of its reservations, whoever owns it, has a
  non-null \<open>order\<close>.
\<close>

theorem hasQueue_iff:
  "formatTicket G t ''hasQueue'' =
      Some (Prim (SBool (count_reservations (shoppable_count (shoppable t)) > 0)))
   \<and> formatTicket G (ticketIncludedFields dbId now r) ''hasQueue'' =
      Some (Prim (SBool (\<exists>x\<in>set (row_reservations r). order x \<noteq> None)))"
  by (simp add: formatTicket_hasQueue included_count filter_nonempty_iff [symmetric])

text \<open>
  A reservation of another member with an \<open>order\<close> gives the requester \<open>m1\<close> a queue; the
  requester's own reservation without an \<open>order\<close> does not.
\<close>

theorem hasQueue_iff_witness:
  "formatTicket 0 (ticketIncludedFields member1 5000
      (example_row ''t1'' 5 2 None None [] [reservation_of ''m2'' (Some 1)]))
      ''hasQueue'' = Some (Prim (SBool True))
   \<and> formatTicket 0 (ticketIncludedFields member1 5000
      (example_row ''t1'' 5 2 None None [] [reservation_of ''m1'' None]))
      ''hasQueue'' = Some (Prim (SBool False))"
  using
    hasQueue_iff [of 0 _ member1 5000
      "example_row ''t1'' 5 2 None None [] [reservation_of ''m2'' (Some 1)]"]
    hasQueue_iff [of 0 _ member1 5000
      "example_row ''t1'' 5 2 None None [] [reservation_of ''m1'' None]"]
  by (simp add: example_row_def reservation_of_def included_count)

subsection \<open>gracePeriodEndsAt\<close>

text \<open>
  Claim C8. \<open>gracePeriodEndsAt\<close> is the \<open>availableFrom\<close> of the Shoppable plus
  \<open>GRACE_PERIOD_WINDOW\<close>, for every loaded ticket and so for every ticket row.
\<close>

theorem gracePeriodEndsAt_eq:
  "formatTicket G t ''gracePeriodEndsAt'' = Some (Prim (SDate (availableFrom (shoppable t) + G)))
   \<and> formatTicket G (ticketIncludedFields dbId now r) ''gracePeriodEndsAt''
       = Some (Prim (SDate (availableFrom (row_shoppable r) + G)))"
  by (simp add: formatTicket_gracePeriodEndsAt included_scalars)

theorem gracePeriodEndsAt_eq_witness:
  "formatTicket 60000 (ticketIncludedFields member1 5000
      (example_row ''t1'' 5 2 None None [] []))
      ''gracePeriodEndsAt'' = Some (Prim (SDate 61000))"
  using gracePeriodEndsAt_eq [of 60000 _ member1 5000 "example_row ''t1'' 5 2 None None [] []"]
  by (simp add: example_row_def included_scalars)

subsection \<open>userItemsInCart and userReservations\<close>

text \<open>
  Claim C10. The projection carries the loaded Consumables under \<open>userItemsInCart\<close> and
  the loaded reservations under \<open>userReservations\<close>, while \<open>consumables\<close> and
  \<open>reservations\<close> are absent. On a ticket row these are the requester's Consumables that
  pass the filter of the include, and the requester's reservations.
\<close>

theorem formatTicket_keeps_own_records:
  "formatTicket G t ''userItemsInCart'' = Some (ConsumableArray (consumables (shoppable t)))
   \<and> formatTicket G t ''userReservations'' = Some (ReservationArray (reservations (shoppable t)))
   \<and> formatTicket G t ''consumables'' = None
   \<and> formatTicket G t ''reservations'' = None
   \<and> formatTicket G (ticketIncludedFields dbId now r) ''userItemsInCart''
       = Some (ConsumableArray (filter (consumable_where dbId now) (row_consumables r)))
   \<and> formatTicket G (ticketIncludedFields dbId now r) ''userReservations''
       = Some (ReservationArray (filter (\<lambda>x. dbId (reservation_cols x)) (row_reservations r)))"
  by (simp add: formatTicket_userItemsInCart formatTicket_userReservations formatTicket_deleted
        included_consumables included_reservations)

theorem formatTicket_keeps_own_records_witness:
  "formatTicket 0 (ticketIncludedFields member1 5000
      (example_row ''t1'' 5 2 None None
         [purchased_by ''m1'' 1, in_cart_of ''m1'' (Some 4000), purchased_by ''m2'' 3]
         [reservation_of ''m2'' (Some 1), reservation_of ''m1'' (Some 2)]))
      ''userItemsInCart'' = Some (ConsumableArray [purchased_by ''m1'' 1])
   \<and> formatTicket 0 (ticketIncludedFields member1 5000
      (example_row ''t1'' 5 2 None None
         [purchased_by ''m1'' 1, in_cart_of ''m1'' (Some 4000), purchased_by ''m2'' 3]
         [reservation_of ''m2'' (Some 1), reservation_of ''m1'' (Some 2)]))
      ''userReservations'' = Some (ReservationArray [reservation_of ''m1'' (Some 2)])"
  using
    formatTicket_keeps_own_records [of 0 _ member1 5000
      "example_row ''t1'' 5 2 None None
         [purchased_by ''m1'' 1, in_cart_of ''m1'' (Some 4000), purchased_by ''m2'' 3]
         [reservation_of ''m2'' (Some 1), reservation_of ''m1'' (Some 2)]"]
  by (simp add: example_row_def member1_def purchased_by_def in_cart_of_def reservation_of_def
        consumable_where_def included_consumables included_reservations)

subsection \<open>getTicket\<close>

text \<open>
  Claim C9. When no ticket row has the id, \<open>getTicket\<close> returns null, the value \<open>None\<close>
  of the model; when a row has it, \<open>getTicket\<close> returns the projection of such a row.
\<close>

theorem getTicket_null_when_absent:
  "((\<forall>r\<in>set db. ticket_id r \<noteq> i) \<longrightarrow> getTicket G db i dbId now = None)
   \<and> ((\<exists>r\<in>set db. ticket_id r = i) \<longrightarrow>
        (\<exists>r\<in>set db. ticket_id r = i
           \<and> getTicket G db i dbId now = Some (formatTicket G (ticketIncludedFields dbId now r))))"
proof (cases "find (\<lambda>r. ticket_id r = i) db")
  case None
  then have "\<forall>r\<in>set db. ticket_id r \<noteq> i"
    by (simp add: find_None_iff)
  with None show ?thesis
    by (simp add: getTicket_def)
next
  case (Some r)
  then have "r \<in> set db" and "ticket_id r = i"
    by (auto simp add: find_Some_iff)
  with Some show ?thesis
    by (auto simp add: getTicket_def)
qed

theorem getTicket_null_when_absent_witness:
  "getTicket 0 [example_row ''t1'' 5 2 None None [] [], example_row ''t2'' 7 1 None None [] []]
      ''t3'' member1 5000 = None
   \<and> getTicket 0 [example_row ''t1'' 5 2 None None [] [], example_row ''t2'' 7 1 None None [] []]
      ''t2'' member1 5000
     = Some (formatTicket 0 (ticketIncludedFields member1 5000
         (example_row ''t2'' 7 1 None None [] [])))"
  using
    getTicket_null_when_absent [of
      "[example_row ''t1'' 5 2 None None [] [], example_row ''t2'' 7 1 None None [] []]"
      "''t3''" 0 member1 5000]
    getTicket_null_when_absent [of
      "[example_row ''t1'' 5 2 None None [] [], example_row ''t2'' 7 1 None None [] []]"
      "''t2''" 0 member1 5000]
  by (simp add: example_row_def)

subsection \<open>getTickets\<close>

lemma getTickets_listed:
  "listed (getTickets G db dbId tz nowDayjs nowWhere nowInclude) i
     \<longleftrightarrow> (\<exists>r\<in>set db. ticket_id r = i
            \<and> tickets_where (dayjs_subtract_days tz 10 nowDayjs) nowWhere (row_shoppable r))"
  by (auto simp add: listed_def getTickets_def Let_def formatTicket_id included_scalars)

lemma getTickets_listed_row:
  assumes "distinct (map ticket_id db)" and "r \<in> set db"
  shows "listed (getTickets G db dbId tz nowDayjs nowWhere nowInclude) (ticket_id r)
     \<longleftrightarrow> tickets_where (dayjs_subtract_days tz 10 nowDayjs) nowWhere (row_shoppable r)"
proof -
  have "r' = r" if "r' \<in> set db" "ticket_id r' = ticket_id r" for r'
    using assms that by (meson distinct_map inj_onD)
  then show ?thesis
    using assms(2) by (auto simp add: getTickets_listed)
qed

lemma dayjs_subtract_days_same_offset:
  "tz now True = tz (now + tz now True - n * 86400000) False
     \<Longrightarrow> dayjs_subtract_days tz n now = now - n * 86400000"
  by (simp add: dayjs_subtract_days_def LocalTime_def UTC_def)

text \<open>
  Claim C7, as amended. The bound of the listing is the instant \<open>dayjs\<close> gives for ten
  days before the clock value: ten days back on the local calendar of the process. In a
  database whose ticket ids are distinct, a ticket row is listed only if its
  \<open>availableTo\<close> is null or later than that bound, and a row whose \<open>availableTo\<close> is at or
  before the bound is not listed. A row whose \<open>removedAt\<close> is null is listed when its
  \<open>availableTo\<close> is null or later than the bound; for the other rows the listing depends
  on the \<open>removedAt\<close> condition as well. The bound is the clock value minus 864000000 ms
  when the zone has the same offset at both ends of the ten days; and as long as the two
  offsets differ by less than five days, a row whose \<open>removedAt\<close> is null and whose
  \<open>availableTo\<close> is five days in the past or later, so also in the future, is listed.
\<close>

theorem getTickets_availableTo_window:
  assumes "distinct (map ticket_id db)" and "r \<in> set db"
  shows
    "(listed (getTickets G db dbId tz nowDayjs nowWhere nowInclude) (ticket_id r)
        \<longrightarrow> availableTo (row_shoppable r) = None
            \<or> (\<exists>d. availableTo (row_shoppable r) = Some d
                   \<and> d > dayjs_subtract_days tz 10 nowDayjs))
     \<and> ((\<exists>d. availableTo (row_shoppable r) = Some d \<and> d \<le> dayjs_subtract_days tz 10 nowDayjs)
        \<longrightarrow> \<not> listed (getTickets G db dbId tz nowDayjs nowWhere nowInclude) (ticket_id r))
     \<and> (removedAt (row_shoppable r) = None
         \<and> (availableTo (row_shoppable r) = None
            \<or> (\<exists>d. availableTo (row_shoppable r) = Some d
                   \<and> d > dayjs_subtract_days tz 10 nowDayjs))
        \<longrightarrow> listed (getTickets G db dbId tz nowDayjs nowWhere nowInclude) (ticket_id r))
     \<and> (tz nowDayjs True = tz (nowDayjs + tz nowDayjs True - 10 * 86400000) False
        \<longrightarrow> dayjs_subtract_days tz 10 nowDayjs = nowDayjs - 10 * 86400000)
     \<and> (tz nowDayjs True - tz (nowDayjs + tz nowDayjs True - 10 * 86400000) False < 5 * 86400000
         \<and> removedAt (row_shoppable r) = None
         \<and> (\<exists>d. availableTo (row_shoppable r) = Some d \<and> d \<ge> nowDayjs - 5 * 86400000)
        \<longrightarrow> listed (getTickets G db dbId tz nowDayjs nowWhere nowInclude) (ticket_id r))"
proof -
  let ?bound = "dayjs_subtract_days tz 10 nowDayjs"
  let ?listed = "listed (getTickets G db dbId tz nowDayjs nowWhere nowInclude) (ticket_id r)"
  have l: "?listed \<longleftrightarrow> tickets_where ?bound nowWhere (row_shoppable r)"
    by (rule getTickets_listed_row [OF assms])
  have a: "?listed \<longrightarrow> availableTo (row_shoppable r) = None
            \<or> (\<exists>d. availableTo (row_shoppable r) = Some d \<and> d > ?bound)"
    unfolding l tickets_where_def gt_case_iff by auto
  have b: "(\<exists>d. availableTo (row_shoppable r) = Some d \<and> d \<le> ?bound) \<longrightarrow> \<not> ?listed"
    unfolding l tickets_where_def gt_case_iff by auto
  have c: "removedAt (row_shoppable r) = None
         \<and> (availableTo (row_shoppable r) = None
            \<or> (\<exists>d. availableTo (row_shoppable r) = Some d \<and> d > ?bound)) \<longrightarrow> ?listed"
    unfolding l tickets_where_def gt_case_iff by auto
  have d: "tz nowDayjs True = tz (nowDayjs + tz nowDayjs True - 10 * 86400000) False
        \<longrightarrow> ?bound = nowDayjs - 10 * 86400000"
    using dayjs_subtract_days_same_offset [of tz nowDayjs 10] by simp
  have "?bound = nowDayjs + tz nowDayjs True - 10 * 86400000
                   - tz (nowDayjs + tz nowDayjs True - 10 * 86400000) False"
    by (simp add: dayjs_subtract_days_def LocalTime_def UTC_def)
  then have "x > ?bound"
    if "tz nowDayjs True - tz (nowDayjs + tz nowDayjs True - 10 * 86400000) False < 5 * 86400000"
      and "x \<ge> nowDayjs - 5 * 86400000" for x
    using that by linarith
  with c have e: "tz nowDayjs True - tz (nowDayjs + tz nowDayjs True - 10 * 86400000) False
           < 5 * 86400000
         \<and> removedAt (row_shoppable r) = None
         \<and> (\<exists>d. availableTo (row_shoppable r) = Some d \<and> d \<ge> nowDayjs - 5 * 86400000)
        \<longrightarrow> ?listed"
    by blast
  from a b c d e show ?thesis
    by (intro conjI)
qed

text \<open>
  With no offset, twenty days after the epoch: the ticket that closed eleven days ago is
  not listed; the ones that closed five days ago, never close, or close in ten days are.
  In Stockholm on 1 November 2024 at 11:00 UTC the bound is 22 October at 10:00 UTC, ten
  days and one hour earlier: a ticket that closed at the bound is not listed, one that
  closed half an hour after it is.
\<close>

theorem getTickets_availableTo_window_witness:
  "\<not> listed (getTickets 0
      [example_row ''old'' 5 2 (Some (9 * 86400000)) None [] [],
       example_row ''recent'' 5 2 (Some (15 * 86400000)) None [] [],
       example_row ''open'' 5 2 None None [] [],
       example_row ''later'' 5 2 (Some (30 * 86400000)) None [] []]
      member1 utc_zone (20 * 86400000) (20 * 86400000) (20 * 86400000)) ''old''
   \<and> listed (getTickets 0
      [example_row ''old'' 5 2 (Some (9 * 86400000)) None [] [],
       example_row ''recent'' 5 2 (Some (15 * 86400000)) None [] [],
       example_row ''open'' 5 2 None None [] [],
       example_row ''later'' 5 2 (Some (30 * 86400000)) None [] []]
      member1 utc_zone (20 * 86400000) (20 * 86400000) (20 * 86400000)) ''recent''
   \<and> listed (getTickets 0
      [example_row ''old'' 5 2 (Some (9 * 86400000)) None [] [],
       example_row ''recent'' 5 2 (Some (15 * 86400000)) None [] [],
       example_row ''open'' 5 2 None None [] [],
       example_row ''later'' 5 2 (Some (30 * 86400000)) None [] []]
      member1 utc_zone (20 * 86400000) (20 * 86400000) (20 * 86400000)) ''open''
   \<and> listed (getTickets 0
      [example_row ''old'' 5 2 (Some (9 * 86400000)) None [] [],
       example_row ''recent'' 5 2 (Some (15 * 86400000)) None [] [],
       example_row ''open'' 5 2 None None [] [],
       example_row ''later'' 5 2 (Some (30 * 86400000)) None [] []]
      member1 utc_zone (20 * 86400000) (20 * 86400000) (20 * 86400000)) ''later''
   \<and> \<not> listed (getTickets 0
      [example_row ''bound'' 5 2 (Some 1729591200000) None [] [],
       example_row ''edge'' 5 2 (Some 1729593000000) None [] []]
      member1 stockholm_autumn_2024 1730458800000 1730458800000 1730458800000) ''bound''
   \<and> listed (getTickets 0
      [example_row ''bound'' 5 2 (Some 1729591200000) None [] [],
       example_row ''edge'' 5 2 (Some 1729593000000) None [] []]
      member1 stockholm_autumn_2024 1730458800000 1730458800000 1730458800000) ''edge''"
proof -
  let ?db = "[example_row ''old'' 5 2 (Some (9 * 86400000)) None [] [],
       example_row ''recent'' 5 2 (Some (15 * 86400000)) None [] [],
       example_row ''open'' 5 2 None None [] [],
       example_row ''later'' 5 2 (Some (30 * 86400000)) None [] []]"
  let ?se = "[example_row ''bound'' 5 2 (Some 1729591200000) None [] [],
       example_row ''edge'' 5 2 (Some 1729593000000) None [] []]"
  have d: "distinct (map ticket_id ?db)"
    by (simp add: example_row_def)
  have s: "distinct (map ticket_id ?se)"
    by (simp add: example_row_def)
  have u: "dayjs_subtract_days utc_zone 10 (20 * 86400000) = 10 * 86400000"
    by (simp add: dayjs_subtract_days_def LocalTime_def UTC_def utc_zone_def)
  have v: "dayjs_subtract_days stockholm_autumn_2024 10 1730458800000 = 1729591200000"
    by (simp add: dayjs_subtract_days_def LocalTime_def UTC_def stockholm_autumn_2024_def)
  note w = getTickets_availableTo_window [OF d, of _ 0 member1 utc_zone "20 * 86400000"
      "20 * 86400000" "20 * 86400000", unfolded u]
  note x = getTickets_availableTo_window [OF s, of _ 0 member1 stockholm_autumn_2024
      1730458800000 1730458800000 1730458800000, unfolded v]
  have "\<not> listed (getTickets 0 ?db member1 utc_zone (20 * 86400000) (20 * 86400000)
      (20 * 86400000)) ''old''"
    using w [of "example_row ''old'' 5 2 (Some (9 * 86400000)) None [] []"]
    by (simp add: example_row_def)
  moreover
  have "listed (getTickets 0 ?db member1 utc_zone (20 * 86400000) (20 * 86400000)
      (20 * 86400000)) ''recent''"
    using w [of "example_row ''recent'' 5 2 (Some (15 * 86400000)) None [] []"]
    by (simp add: example_row_def)
  moreover
  have "listed (getTickets 0 ?db member1 utc_zone (20 * 86400000) (20 * 86400000)
      (20 * 86400000)) ''open''"
    using w [of "example_row ''open'' 5 2 None None [] []"]
    by (simp add: example_row_def)
  moreover
  have "listed (getTickets 0 ?db member1 utc_zone (20 * 86400000) (20 * 86400000)
      (20 * 86400000)) ''later''"
    using w [of "example_row ''later'' 5 2 (Some (30 * 86400000)) None [] []"]
    by (simp add: example_row_def)
  moreover
  have "\<not> listed (getTickets 0 ?se member1 stockholm_autumn_2024 1730458800000 1730458800000
      1730458800000) ''bound''"
    using x [of "example_row ''bound'' 5 2 (Some 1729591200000) None [] []"]
    by (simp add: example_row_def)
  moreover
  have "listed (getTickets 0 ?se member1 stockholm_autumn_2024 1730458800000 1730458800000
      1730458800000) ''edge''"
    using x [of "example_row ''edge'' 5 2 (Some 1729593000000) None [] []"]
    by (simp add: example_row_def)
  ultimately show ?thesis
    by (intro conjI)
qed

text \<open>
  Claim C7 as stated fails, in two ways. With no offset, twenty days after the epoch, a
  ticket that closed five days ago and whose \<open>removedAt\<close> is the clock value is not
  listed: the \<open>availableTo\<close> condition is only one of the two conditions of the \<open>where\<close>.
  In Stockholm on 1 November 2024 at 11:00 UTC a ticket that closed ten days and half an
  hour earlier, more than 864000000 ms in the past, is listed: \<open>dayjs\<close> went ten days back
  on the local calendar, over the end of summer time.
\<close>

theorem getTickets_availableTo_not_the_whole_filter:
  "\<not> listed (getTickets 0
      [example_row ''recent'' 5 2 (Some (15 * 86400000)) (Some (20 * 86400000)) [] []]
      member1 utc_zone (20 * 86400000) (20 * 86400000) (20 * 86400000)) ''recent''
   \<and> listed (getTickets 0
      [example_row ''edge'' 5 2 (Some 1729593000000) None [] []]
      member1 stockholm_autumn_2024 1730458800000 1730458800000 1730458800000) ''edge''
   \<and> (1729593000000 :: int) < 1730458800000 - 10 * 86400000"
  by (simp add: getTickets_listed example_row_def tickets_where_def dayjs_subtract_days_def
        LocalTime_def UTC_def utc_zone_def stockholm_autumn_2024_def)

text \<open>
  Claim C1. The \<open>where\<close> of \<open>getTickets\<close> compares \<open>removedAt\<close> with \<open>lt\<close>: at the clock
  value 5000 a ticket removed at 1000, in the past, is listed, and a ticket whose removal
  is set for 9000, in the future, is not. The claim asks for the opposite on both.
\<close>

theorem getTickets_lists_removed_ticket:
  "listed (getTickets 0 [example_row ''gone'' 5 2 None (Some 1000) [] []]
      member1 utc_zone 5000 5000 5000) ''gone''
   \<and> \<not> listed (getTickets 0 [example_row ''going'' 5 2 None (Some 9000) [] []]
      member1 utc_zone 5000 5000 5000) ''going''"
  by (simp add: getTickets_listed example_row_def tickets_where_def)

end
